theory Spec2Isabelle
  imports Complex_Main
begin

section \<open>Python values shared by both modules\<close>

text \<open>
  Exceptions are values. Only the exception classes that the two modules raise or
  catch by name, or that their operations can raise, are listed. \<open>MegaError\<close> is the
  class declared in \<open>megalodon_helper.py\<close> (a direct subclass of \<open>Exception\<close>);
  \<open>NotImplementedError\<close> is Python's builtin, a subclass of \<open>RuntimeError\<close>.
\<close>

datatype py_error =
    MegaError string
  | NotImplementedError string
  | AttributeError
  | RuntimeError
  | ImportError
  | TypeError
  | ValueError
  | IndexError
  | ZeroDivisionError
  | AssertionError
  | UnboundLocalError
  | OtherError string

text \<open>\<open>except AttributeError\<close> and \<open>except RuntimeError\<close> match by class,
  subclasses included.\<close>

fun isinstance_AttributeError :: "py_error \<Rightarrow> bool" where
  "isinstance_AttributeError AttributeError = True"
| "isinstance_AttributeError _ = False"

fun isinstance_RuntimeError :: "py_error \<Rightarrow> bool" where
  "isinstance_RuntimeError RuntimeError = True"
| "isinstance_RuntimeError (NotImplementedError _) = True"
| "isinstance_RuntimeError _ = False"

fun isinstance_MegaError :: "py_error \<Rightarrow> bool" where
  "isinstance_MegaError (MegaError _) = True"
| "isinstance_MegaError _ = False"

text \<open>Sequencing of fallible steps: the first raise ends the computation.\<close>

fun and_then :: "py_error + 'a \<Rightarrow> ('a \<Rightarrow> py_error + 'b) \<Rightarrow> py_error + 'b" where
  "and_then (Inl e) f = Inl e"
| "and_then (Inr x) f = f x"

text \<open>Python slice bounds: a negative bound counts from the end, and every bound is
  clamped to the sequence.\<close>

definition slice_bound :: "nat \<Rightarrow> int \<Rightarrow> nat" where
  "slice_bound n i = (if i < 0 then nat (max 0 (int n + i)) else min n (nat i))"

definition slice_to :: "'a list \<Rightarrow> int \<Rightarrow> 'a list" where
  "slice_to xs j = take (slice_bound (length xs) j) xs"

definition slice_from :: "'a list \<Rightarrow> int \<Rightarrow> 'a list" where
  "slice_from xs i = drop (slice_bound (length xs) i) xs"

definition slice :: "'a list \<Rightarrow> int \<Rightarrow> int \<Rightarrow> 'a list" where
  "slice xs i j =
     drop (slice_bound (length xs) i) (take (slice_bound (length xs) j) xs)"

text \<open>Indexing with a non-negative index; out of range raises \<open>IndexError\<close>.\<close>

definition index :: "'a list \<Rightarrow> nat \<Rightarrow> py_error + 'a" where
  "index xs i = (if i < length xs then Inr (xs ! i) else Inl IndexError)"

section \<open>Array elements\<close>

text \<open>
  An element of a numpy floating-point array is a finite number, an infinity or NaN.
  Finite values are exact reals here: the rounding and the overflow of 32-bit and
  64-bit arithmetic are left out, and zero carries no sign (every zero divisor that
  \<open>extract_read_data\<close> can meet is a product of a positive factor and a median of
  absolute values, hence \<open>+0\<close>). What is kept is what numpy does where Python would
  raise: dividing by zero and the mean of an empty slice give infinities and NaN, with a
  warning and no exception.
\<close>

datatype npfloat = Fin real | PInf | NInf | NaN

fun fneg :: "npfloat \<Rightarrow> npfloat" where
  "fneg (Fin x) = Fin (- x)"
| "fneg PInf = NInf"
| "fneg NInf = PInf"
| "fneg NaN = NaN"

fun fadd :: "npfloat \<Rightarrow> npfloat \<Rightarrow> npfloat" where
  "fadd (Fin x) (Fin y) = Fin (x + y)"
| "fadd (Fin x) PInf = PInf"
| "fadd (Fin x) NInf = NInf"
| "fadd PInf (Fin y) = PInf"
| "fadd PInf PInf = PInf"
| "fadd NInf (Fin y) = NInf"
| "fadd NInf NInf = NInf"
| "fadd _ _ = NaN"

definition fsub :: "npfloat \<Rightarrow> npfloat \<Rightarrow> npfloat" where
  "fsub x y = fadd x (fneg y)"

fun fabs :: "npfloat \<Rightarrow> npfloat" where
  "fabs (Fin x) = Fin \<bar>x\<bar>"
| "fabs PInf = PInf"
| "fabs NInf = PInf"
| "fabs NaN = NaN"

fun fmul :: "npfloat \<Rightarrow> npfloat \<Rightarrow> npfloat" where
  "fmul (Fin x) (Fin y) = Fin (x * y)"
| "fmul (Fin x) PInf = (if x = 0 then NaN else if 0 < x then PInf else NInf)"
| "fmul (Fin x) NInf = (if x = 0 then NaN else if 0 < x then NInf else PInf)"
| "fmul PInf (Fin y) = (if y = 0 then NaN else if 0 < y then PInf else NInf)"
| "fmul NInf (Fin y) = (if y = 0 then NaN else if 0 < y then NInf else PInf)"
| "fmul PInf PInf = PInf"
| "fmul PInf NInf = NInf"
| "fmul NInf PInf = NInf"
| "fmul NInf NInf = PInf"
| "fmul _ _ = NaN"

fun fdiv :: "npfloat \<Rightarrow> npfloat \<Rightarrow> npfloat" where
  "fdiv (Fin x) (Fin y) =
     (if y \<noteq> 0 then Fin (x / y)
      else if x = 0 then NaN else if 0 < x then PInf else NInf)"
| "fdiv (Fin x) PInf = Fin 0"
| "fdiv (Fin x) NInf = Fin 0"
| "fdiv PInf (Fin y) = (if 0 \<le> y then PInf else NInf)"
| "fdiv NInf (Fin y) = (if 0 \<le> y then NInf else PInf)"
| "fdiv _ _ = NaN"

text \<open>The order numpy sorts by: NaN last.\<close>

fun fle :: "npfloat \<Rightarrow> npfloat \<Rightarrow> bool" where
  "fle _ NaN = True"
| "fle NaN _ = False"
| "fle NInf _ = True"
| "fle _ NInf = False"
| "fle _ PInf = True"
| "fle PInf _ = False"
| "fle (Fin x) (Fin y) = (x \<le> y)"

fun np_insort :: "npfloat \<Rightarrow> npfloat list \<Rightarrow> npfloat list" where
  "np_insort x [] = [x]"
| "np_insort x (y # ys) = (if fle x y then x # y # ys else y # np_insort x ys)"

fun np_sort :: "npfloat list \<Rightarrow> npfloat list" where
  "np_sort [] = []"
| "np_sort (x # xs) = np_insort x (np_sort xs)"

fun np_sum :: "npfloat list \<Rightarrow> npfloat" where
  "np_sum [] = Fin 0"
| "np_sum (x # xs) = fadd x (np_sum xs)"

text \<open>\<open>np.mean\<close>: the sum over the count; the mean of an empty slice is \<open>0 / 0\<close>.\<close>

definition np_mean :: "npfloat list \<Rightarrow> npfloat" where
  "np_mean xs = fdiv (np_sum xs) (Fin (real (length xs)))"

text \<open>
  \<open>np.median\<close> of a one-dimensional array, as numpy computes it: the middle element of
  the ordered data for an odd size, the mean of the two middle elements for an even
  size (numpy selects them by a partition; the elements at these positions are those of
  the sorted array), NaN for a non-empty array that holds a NaN, and the mean of an
  empty slice for an empty array.
\<close>

definition np_median :: "npfloat list \<Rightarrow> npfloat" where
  "np_median a =
     (let sz = length a;
          part = np_sort a;
          idx = int (sz div 2);
          rout = np_mean (if sz mod 2 = 1 then slice part idx (idx + 1)
                          else slice part (idx - 1) (idx + 1))
      in if 0 < sz \<and> NaN \<in> set a then NaN else rout)"

section \<open>megalodon\_helper.py\<close>

definition ALPHABET :: string where
  "ALPHABET = ''ACGT''"

text \<open>
  \<open>int(x)\<close> of a float truncates towards zero.
\<close>

definition py_int :: "real \<Rightarrow> int" where
  "py_int x = (if 0 \<le> x then \<lfloor>x\<rfloor> else \<lceil>x\<rceil>)"

text \<open>
  \<open>nstate_to_nbase\<close>, line 26. The state count is a layer size, a natural number, so
  the square root is defined. The float expression is read in exact real arithmetic.
\<close>

definition nstate_to_nbase :: "nat \<Rightarrow> int" where
  "nstate_to_nbase nstate = py_int (sqrt (0.25 + 0.5 * real nstate) - 0.5)"

text \<open>
  \<open>med_mad\<close>, line 36, for the call the module makes: one-dimensional data,
  \<open>axis=None\<close>. \<open>factor\<close> is optional and defaults to 1.4826.
\<close>

definition med_mad :: "npfloat list \<Rightarrow> real option \<Rightarrow> npfloat \<times> npfloat" where
  "med_mad data factor =
     (let factor' = (case factor of None \<Rightarrow> 1.4826 | Some f \<Rightarrow> f);
          dmed = np_median data;
          dmad = fmul (Fin factor') (np_median (map (\<lambda>x. fabs (fsub x dmed)) data))
      in (dmed, dmad))"

text \<open>
  The median and the median absolute deviation in the spec's sense, on finite data: the
  middle element of the ordered samples, or the mean of the two middle elements; and
  the median of the absolute deviations from the median.
\<close>

definition spec_median :: "real list \<Rightarrow> real" where
  "spec_median xs =
     (if length xs mod 2 = 1 then sort xs ! (length xs div 2)
      else (sort xs ! (length xs div 2 - 1) + sort xs ! (length xs div 2)) / 2)"

definition spec_mad :: "real list \<Rightarrow> real" where
  "spec_mad xs = spec_median (map (\<lambda>x. \<bar>x - spec_median xs\<bar>) xs)"

text \<open>
  The read container, as \<open>h5py\<close> shows it to \<open>extract_read_data\<close>. Each field is the
  outcome of one access: \<open>Signal\<close> is the dataset as read and converted by
  \<open>raw_slot['Signal'][:].astype(np.float32)\<close>, \<open>None\<close> where that raises;
  \<open>attrs_accessible\<close> is whether \<open>raw_slot.attrs.get\<close> returns;
  \<open>read_id_attr\<close> is the attribute, \<open>None\<close> where it is missing and
  \<open>attrs.get\<close> returns Python's \<open>None\<close>.
\<close>

datatype py_value = PyNone | PyStr string | PyBytes "nat list"

record raw_slot =
  Signal :: "npfloat list option"
  attrs_accessible :: bool
  read_id_attr :: "py_value option"

record fast5 =
  Raw_Reads :: "raw_slot list option"

text \<open>
  \<open>read_id.decode()\<close>: \<open>None\<close> and \<open>str\<close> have no \<open>decode\<close>; \<open>bytes\<close> decode with the
  UTF-8 codec, a parameter (\<open>None\<close> where it raises \<open>UnicodeDecodeError\<close>).
\<close>

fun decode :: "(nat list \<Rightarrow> string option) \<Rightarrow> py_value \<Rightarrow> py_error + py_value" where
  "decode codec PyNone = Inl AttributeError"
| "decode codec (PyStr s) = Inl AttributeError"
| "decode codec (PyBytes bs) =
     (case codec bs of None \<Rightarrow> Inl (OtherError ''UnicodeDecodeError'')
      | Some s \<Rightarrow> Inr (PyStr s))"

text \<open>
  Lines 80 to 85: \<open>read_id\<close> starts as \<open>None\<close>, is assigned the attribute, then its
  decoding; the bare \<open>except\<close> swallows a raise and leaves \<open>read_id\<close> as last assigned.
\<close>

definition extract_read_id :: "(nat list \<Rightarrow> string option) \<Rightarrow> raw_slot \<Rightarrow> py_value" where
  "extract_read_id codec rs =
     (let read_id = PyNone in
      if \<not> attrs_accessible rs then read_id
      else let read_id = (case read_id_attr rs of None \<Rightarrow> PyNone | Some v \<Rightarrow> v) in
        (case decode codec read_id of Inl e \<Rightarrow> read_id | Inr s \<Rightarrow> s))"

text \<open>
  \<open>extract_read_data\<close>, line 61. \<open>h5\<close> is the file system seen through \<open>h5py.File\<close>:
  \<open>None\<close> where opening raises. Closing the file has no part in the returned value.
\<close>

definition extract_read_data ::
  "(string \<Rightarrow> fast5 option) \<Rightarrow> (nat list \<Rightarrow> string option) \<Rightarrow> string \<Rightarrow> bool
     \<Rightarrow> py_error + (npfloat list \<times> py_value)" where
  "extract_read_data h5 codec fast5_fn scale =
     (case h5 fast5_fn of
        None \<Rightarrow> Inl (MegaError ''Error opening read file'')
      | Some fast5_data \<Rightarrow>
        (case Raw_Reads fast5_data of
           None \<Rightarrow> Inl (MegaError ''Raw signal not found in /Raw/Reads slot'')
         | Some [] \<Rightarrow> Inl (MegaError ''Raw signal not found in /Raw/Reads slot'')
         | Some (rs # _) \<Rightarrow>
           (case Signal rs of
              None \<Rightarrow> Inl (MegaError ''Raw signal not found in Signal dataset'')
            | Some raw_sig \<Rightarrow>
              (let read_id = extract_read_id codec rs in
               if scale
               then (let (med, mad) = med_mad raw_sig None
                     in Inr (map (\<lambda>x. fdiv (fsub x med) mad) raw_sig, read_id))
               else Inr (raw_sig, read_id)))))"

section \<open>backends.py\<close>

definition TAI_NAME :: string where
  "TAI_NAME = ''taiyaki''"

definition FLP_NAME :: string where
  "FLP_NAME = ''flappie''"

definition CAN_ALPHABET :: string where
  "CAN_ALPHABET = ''ACGT''"

definition MOD_ALPHABET :: string where
  "MOD_ALPHABET =
     CAN_ALPHABET @ filter (\<lambda>b. b \<notin> set CAN_ALPHABET) (rev ''ABCDEFGHIJKLMNOPQRSTUVWXYZ'')"

subsection \<open>The two runtimes\<close>

text \<open>
  The inference engines are not part of the repository. Each is a record of the
  functions and attributes that \<open>backends.py\<close> uses, with the outcome of every call a
  value: \<open>Inl\<close> where the call raises.
\<close>

type_synonym matrix = "npfloat list list"

datatype trans_weights = Undivided matrix | Divided matrix matrix

record flappy_module =
  get_cat_mods :: "nat list \<times> string"
  run_network :: "npfloat list \<Rightarrow> string \<Rightarrow> py_error + trans_weights"

text \<open>The attributes of a \<open>GlobalNormFlipFlopCatMod\<close> layer that the constructor
  reads.\<close>

record cat_mod_layer =
  layer_output_alphabet :: string
  layer_can_nmods :: "nat list"
  mod_long_names_conv :: "(string \<times> string) list"

text \<open>A final layer: its \<open>size\<close>, and its modification attributes when it is an
  instance of \<open>GlobalNormFlipFlopCatMod\<close>.\<close>

record layer =
  layer_size :: nat
  cat_mod :: "cat_mod_layer option"

record tai_model =
  sublayers :: "layer list"

datatype torch_device = Cpu | Cuda int

text \<open>
  \<open>taiyaki\<close> and \<open>torch\<close> as imported on the trained path: \<open>load_model\<close>,
  \<open>basecall_helpers.run_model\<close>, whether \<open>taiyaki.layers\<close> has the class
  \<open>GlobalNormFlipFlopCatMod\<close>, and the outcome of binding a model to a CUDA device
  (\<open>None\<close> where \<open>set_device\<close> and \<open>cuda()\<close> return).
\<close>

record taiyaki_module =
  load_model :: "string \<Rightarrow> py_error + tai_model"
  has_GlobalNormFlipFlopCatMod :: bool
  basecall_run_model ::
    "npfloat list \<Rightarrow> tai_model \<Rightarrow> int \<Rightarrow> int \<Rightarrow> int \<Rightarrow> py_error + matrix"
  cuda_bind :: "int \<Rightarrow> py_error option"

text \<open>What the \<open>import\<close> statements find: \<open>None\<close> where the import raises.\<close>

record py_env =
  import_flappy :: "flappy_module option"
  import_taiyaki :: "taiyaki_module option"

subsection \<open>The object\<close>

text \<open>
  A \<open>ModelInfo\<close> object is its attributes. An attribute that no statement has
  assigned yet is \<open>None\<close>, and reading it raises \<open>AttributeError\<close>. The attribute
  \<open>taiyaki\<close> stands for the three handles \<open>load_taiyaki_model\<close>, \<open>tai_run_model\<close>
  and \<open>torch\<close>, which are assigned together.
\<close>

record ModelInfo =
  model_type :: "string option"
  name :: "string option"
  flappy :: "flappy_module option"
  is_cat_mod :: "bool option"
  output_alphabet :: "string option"
  can_nmods :: "nat list option"
  n_mods :: "nat option"
  output_size :: "nat option"
  can_indices :: "nat list option"
  can_alphabet :: "string option"
  mod_long_names :: "(string \<times> string) list option"
  can_base_mod :: "(char \<times> string) list option"
  can_base_mods :: "(char \<times> string) list option"
  str_to_int_mod_labels :: "(char \<times> nat) list option"
  process_devices :: "int option list option"
  fn :: "string option"
  chunk_size :: "int option"
  chunk_overlap :: "int option"
  max_concur_chunks :: "int option"
  devices :: "int list option option"
  taiyaki :: "taiyaki_module option"
  model :: "tai_model option"
  device :: "torch_device option"

definition new_object :: ModelInfo where
  "new_object =
     \<lparr> model_type = None, name = None, flappy = None, is_cat_mod = None,
       output_alphabet = None, can_nmods = None, n_mods = None, output_size = None,
       can_indices = None, can_alphabet = None, mod_long_names = None,
       can_base_mod = None, can_base_mods = None, str_to_int_mod_labels = None,
       process_devices = None, fn = None, chunk_size = None, chunk_overlap = None,
       max_concur_chunks = None, devices = None, taiyaki = None, model = None,
       device = None \<rparr>"

fun getattr :: "'a option \<Rightarrow> py_error + 'a" where
  "getattr None = Inl AttributeError"
| "getattr (Some v) = Inr v"

subsection \<open>Dictionaries\<close>

text \<open>A dictionary is the list of its items in insertion order.
  \<open>dd_append d k v\<close> is \<open>d[k].append(v)\<close> on a \<open>defaultdict(list)\<close>;
  \<open>dict_set d k v\<close> is \<open>d[k] = v\<close>.\<close>

fun dd_append :: "('k \<times> 'v list) list \<Rightarrow> 'k \<Rightarrow> 'v \<Rightarrow> ('k \<times> 'v list) list" where
  "dd_append [] k v = [(k, [v])]"
| "dd_append ((k', vs) # d) k v =
     (if k' = k then (k', vs @ [v]) # d else (k', vs) # dd_append d k v)"

fun dict_set :: "('k \<times> 'v) list \<Rightarrow> 'k \<Rightarrow> 'v \<Rightarrow> ('k \<times> 'v) list" where
  "dict_set [] k v = [(k, v)]"
| "dict_set ((k', v') # d) k v =
     (if k' = k then (k', v) # d else (k', v') # dict_set d k v)"

fun dict_get :: "('k \<times> 'v) list \<Rightarrow> 'k \<Rightarrow> 'v option" where
  "dict_get [] k = None"
| "dict_get ((k', v) # d) k = (if k' = k then Some v else dict_get d k)"

subsection \<open>The alphabet of a modification-aware model\<close>

fun cumsum_from :: "nat \<Rightarrow> nat list \<Rightarrow> nat list" where
  "cumsum_from acc [] = []"
| "cumsum_from acc (x # xs) = (acc + x) # cumsum_from (acc + x) xs"

definition np_cumsum :: "nat list \<Rightarrow> nat list" where
  "np_cumsum xs = cumsum_from 0 xs"

text \<open>Lines 41 and 114:
  \<open>np.cumsum(np.concatenate([[0], can_nmods[:-1] + 1]))\<close>.\<close>

definition compute_can_indices :: "nat list \<Rightarrow> nat list" where
  "compute_can_indices nmods = np_cumsum (0 # map (\<lambda>n. n + 1) (slice_to nmods (- 1)))"

text \<open>\<open>''.join(output_alphabet[b_i] for b_i in can_indices)\<close>.\<close>

fun index_all :: "'a list \<Rightarrow> nat list \<Rightarrow> py_error + 'a list" where
  "index_all xs [] = Inr []"
| "index_all xs (i # is) =
     and_then (index xs i) (\<lambda>x. and_then (index_all xs is) (\<lambda>rest. Inr (x # rest)))"

text \<open>Lines 45 to 47: the modification symbols, run by run.\<close>

definition compute_mod_bases :: "string \<Rightarrow> nat list \<Rightarrow> nat list \<Rightarrow> string" where
  "compute_mod_bases alphabet indices nmods =
     concat (map (\<lambda>(b_i, b_nmods). slice alphabet (int b_i + 1) (int b_i + 1 + int b_nmods))
               (zip indices nmods))"

text \<open>
  Lines 51 to 55, the loop of the compiled path. \<open>cur\<close> is the local
  \<open>curr_can_base\<close>, unbound until the first canonical base is met; \<open>d\<close> is the
  dictionary held by the attribute \<open>can_base_mod\<close>.
\<close>

fun flp_base_loop ::
  "string \<Rightarrow> string \<Rightarrow> char option \<Rightarrow> (char \<times> string) list
     \<Rightarrow> py_error + (char \<times> string) list" where
  "flp_base_loop can_bases [] cur d = Inr d"
| "flp_base_loop can_bases (base # rest) cur d =
     (if base \<in> set can_bases then flp_base_loop can_bases rest (Some base) d
      else (case cur of
              None \<Rightarrow> Inl UnboundLocalError
            | Some c \<Rightarrow> flp_base_loop can_bases rest cur (dd_append d c base)))"

text \<open>
  Lines 121 to 128, the loop of the trained path, over \<open>enumerate(output_alphabet)\<close>.
  \<open>cur\<close> holds the locals \<open>curr_can_base\<close> and \<open>curr_mod_i\<close>, bound together.
\<close>

fun tai_base_loop ::
  "nat list \<Rightarrow> nat \<Rightarrow> string \<Rightarrow> (char \<times> nat) option
     \<Rightarrow> (char \<times> nat) list \<Rightarrow> (char \<times> string) list
     \<Rightarrow> py_error + ((char \<times> nat) list \<times> (char \<times> string) list)" where
  "tai_base_loop indices base_i [] cur labels mods = Inr (labels, mods)"
| "tai_base_loop indices base_i (base # rest) cur labels mods =
     (if base_i \<in> set indices
      then tai_base_loop indices (base_i + 1) rest (Some (base, 0)) labels mods
      else (case cur of
              None \<Rightarrow> Inl UnboundLocalError
            | Some (c, mod_i) \<Rightarrow>
                tai_base_loop indices (base_i + 1) rest (Some (c, mod_i + 1))
                  (dict_set labels base mod_i) (dd_append mods c base)))"

subsection \<open>Processes per device\<close>

text \<open>
  Lines 79 to 83. \<open>/\<close> is the true division of Python 3, so
  \<open>np.ceil(num_proc / len(devices)).astype(int)\<close> is the ceiling of the quotient; the
  64-bit float quotient of two integers rounds to the same ceiling for every process
  count below \<open>2 ^ 53\<close>, and the exact quotient is used here.
  \<open>d\<close> is \<open>len(devices)\<close>, positive where this is called. The slice assignment
  \<open>procs_per_device[-k:] -= 1\<close> lowers the last \<open>k\<close> entries.
\<close>

definition base_proc_per_device :: "int \<Rightarrow> nat \<Rightarrow> int" where
  "base_proc_per_device num_proc d = \<lceil>real_of_int num_proc / real d\<rceil>"

definition procs_per_device :: "int \<Rightarrow> nat \<Rightarrow> int list" where
  "procs_per_device num_proc d =
     (let base = base_proc_per_device num_proc d;
          ppd = replicate d base
      in if base * int d > num_proc
         then slice_to ppd (- (base * int d - num_proc))
                @ map (\<lambda>c. c - 1) (slice_from ppd (- (base * int d - num_proc)))
         else ppd)"

text \<open>\<open>np.repeat(devices, counts)\<close>: a negative count raises \<open>ValueError\<close>.\<close>

definition np_repeat :: "'a list \<Rightarrow> int list \<Rightarrow> py_error + 'a list" where
  "np_repeat xs counts =
     (if list_ex (\<lambda>c. c < 0) counts then Inl ValueError
      else Inr (concat (map (\<lambda>(x, c). replicate (nat c) x) (zip xs counts))))"

text \<open>
  Lines 78 to 86: the device of every worker process. \<open>devices\<close> defaults to \<open>None\<close>,
  whose \<open>len\<close> raises \<open>TypeError\<close>; an empty list divides by zero.
\<close>

definition assign_process_devices :: "int list option \<Rightarrow> int \<Rightarrow> py_error + int list" where
  "assign_process_devices devs num_proc =
     (case devs of
        None \<Rightarrow> Inl TypeError
      | Some ds \<Rightarrow>
          if length ds = 0 then Inl ZeroDivisionError
          else (let ppd = procs_per_device num_proc (length ds)
                in if sum_list ppd \<noteq> num_proc then Inl AssertionError
                   else np_repeat ds ppd))"

subsection \<open>ModelInfo.\_\_init\_\_\<close>

text \<open>Lines 35 to 55, the compiled modification-aware model: the attributes
  assigned before the last statement of the branch.\<close>

definition flappie_cat_mod_attrs :: "ModelInfo \<Rightarrow> flappy_module \<Rightarrow> py_error + ModelInfo" where
  "flappie_cat_mod_attrs self fl =
     (let (nmods, alphabet) = get_cat_mods fl;
          indices = compute_can_indices nmods;
          self = self\<lparr> is_cat_mod := Some True, output_alphabet := Some alphabet,
                       can_nmods := Some nmods, n_mods := Some (sum_list nmods),
                       output_size := Some (41 + sum_list nmods),
                       can_indices := Some indices \<rparr>
      in and_then (index_all alphabet indices) (\<lambda>can_bases.
           let mod_bases = compute_mod_bases alphabet indices nmods;
               self = self\<lparr> can_alphabet := Some can_bases,
                            mod_long_names := Some (map (\<lambda>mod_b. ([mod_b], [mod_b])) mod_bases),
                            can_base_mod := Some [] \<rparr>
           in and_then (flp_base_loop can_bases alphabet None [])
                (\<lambda>d. Inr (self\<lparr> can_base_mod := Some d \<rparr>))))"

text \<open>Lines 35 to 56. Line 56, \<open>self.can_base_mods = dict(self.can_base_mods)\<close>,
  reads the attribute \<open>can_base_mods\<close> of the object; the loop above filled
  \<open>can_base_mod\<close>.\<close>

definition init_flappie_cat_mod :: "ModelInfo \<Rightarrow> flappy_module \<Rightarrow> py_error + ModelInfo" where
  "init_flappie_cat_mod self fl =
     and_then (flappie_cat_mod_attrs self fl) (\<lambda>self.
       and_then (getattr (can_base_mods self))
         (\<lambda>m. Inr (self\<lparr> can_base_mods := Some m \<rparr>)))"

text \<open>Lines 22 to 64, the compiled path.\<close>

definition init_flappie :: "py_env \<Rightarrow> string \<Rightarrow> int \<Rightarrow> py_error + ModelInfo" where
  "init_flappie env flappie_model_name num_proc =
     (let self = new_object\<lparr> model_type := Some FLP_NAME, name := Some flappie_model_name \<rparr>
      in case import_flappy env of
           None \<Rightarrow> Inl ImportError
         | Some fl \<Rightarrow>
             (let self = self\<lparr> flappy := Some fl \<rparr>
              in if flappie_model_name = ''r941_5mC''
                 then Inl (NotImplementedError
                             ''Naive modified base flip-flop models are not supported.'')
                 else and_then
                        (if flappie_model_name \<in> set [''r941_cat_mod'']
                         then init_flappie_cat_mod self fl
                         else Inr (self\<lparr> is_cat_mod := Some False,
                                          can_alphabet := Some ALPHABET,
                                          mod_long_names := Some [],
                                          output_size := Some 40,
                                          n_mods := Some 0 \<rparr>))
                        (\<lambda>self. Inr (self\<lparr> process_devices :=
                                                Some (replicate (nat num_proc) None) \<rparr>))))"

text \<open>Lines 113 to 129, the trained modification-aware model.\<close>

definition init_taiyaki_cat_mod :: "ModelInfo \<Rightarrow> cat_mod_layer \<Rightarrow> py_error + ModelInfo" where
  "init_taiyaki_cat_mod self ff =
     (let alphabet = layer_output_alphabet ff;
          indices = compute_can_indices (layer_can_nmods ff);
          self = self\<lparr> output_alphabet := Some alphabet, can_indices := Some indices \<rparr>
      in and_then (index_all alphabet indices) (\<lambda>can_bases.
           let self = self\<lparr> can_alphabet := Some can_bases,
                            mod_long_names := Some (mod_long_names_conv ff),
                            str_to_int_mod_labels := Some [],
                            can_base_mods := Some [] \<rparr>
           in and_then (tai_base_loop indices 0 alphabet None [] [])
                (\<lambda>(labels, mods).
                   Inr (self\<lparr> str_to_int_mod_labels := Some labels,
                               can_base_mods := Some mods \<rparr>))))"

text \<open>Lines 130 to 138, the trained plain model.\<close>

definition init_taiyaki_plain :: "ModelInfo \<Rightarrow> nat \<Rightarrow> py_error + ModelInfo" where
  "init_taiyaki_plain self ff_size =
     (if nstate_to_nbase ff_size \<noteq> 4
      then Inl (NotImplementedError
                  ''Naive modified base flip-flop models are not supported.'')
      else Inr (self\<lparr> output_alphabet := Some ALPHABET, can_alphabet := Some ALPHABET,
                       mod_long_names := Some [], str_to_int_mod_labels := Some [] \<rparr>))"

text \<open>\<open>tmp_model.sublayers[-1]\<close>.\<close>

definition last_sublayer :: "tai_model \<Rightarrow> py_error + layer" where
  "last_sublayer m = (if sublayers m = [] then Inl IndexError else Inr (last (sublayers m)))"

text \<open>Lines 102 to 139: the model is loaded and its final layer decides the
  alphabet.\<close>

definition init_taiyaki_alphabet ::
  "ModelInfo \<Rightarrow> taiyaki_module \<Rightarrow> string \<Rightarrow> py_error + ModelInfo" where
  "init_taiyaki_alphabet self tai taiyaki_model_fn =
     and_then (load_model tai taiyaki_model_fn) (\<lambda>tmp_model.
     and_then (last_sublayer tmp_model) (\<lambda>ff_layer.
       let cat = (if has_GlobalNormFlipFlopCatMod tai then cat_mod ff_layer else None);
           self = self\<lparr> is_cat_mod := Some (cat \<noteq> None),
                        output_size := Some (layer_size ff_layer) \<rparr>
       in and_then
            (case cat of
               Some ff \<Rightarrow> init_taiyaki_cat_mod self ff
             | None \<Rightarrow> init_taiyaki_plain self (layer_size ff_layer))
            (\<lambda>self. and_then (getattr (mod_long_names self))
               (\<lambda>names. Inr (self\<lparr> n_mods := Some (length names) \<rparr>)))))"

text \<open>Lines 65 to 139, the trained path: the chunking parameters are checked, then
  the devices are assigned, then the runtime is imported and the model loaded.\<close>

definition init_taiyaki ::
  "py_env \<Rightarrow> string \<Rightarrow> int list option \<Rightarrow> int \<Rightarrow> int option \<Rightarrow> int option \<Rightarrow> int option
     \<Rightarrow> py_error + ModelInfo" where
  "init_taiyaki env taiyaki_model_fn devs num_proc csize coverlap mconcur =
     (if list_ex (\<lambda>arg. arg = None) [csize, coverlap, mconcur]
      then Inl (NotImplementedError
        ''Must provide chunk_size, chunk_overlap, max_concur_chunks in order to run the taiyaki base calling backend.'')
      else
       (let self = new_object\<lparr> model_type := Some TAI_NAME, fn := Some taiyaki_model_fn,
                                chunk_size := csize, chunk_overlap := coverlap,
                                max_concur_chunks := mconcur, devices := Some devs \<rparr>
        in and_then (assign_process_devices devs num_proc) (\<lambda>pd.
             let self = self\<lparr> process_devices := Some (map Some pd) \<rparr>
             in case import_taiyaki env of
                  None \<Rightarrow> Inl ImportError
                | Some tai \<Rightarrow>
                    init_taiyaki_alphabet (self\<lparr> taiyaki := Some tai \<rparr>) tai
                      taiyaki_model_fn)))"

text \<open>\<open>ModelInfo.__init__\<close>, line 18: the object, or the exception raised.\<close>

definition ModelInfo_init ::
  "py_env \<Rightarrow> string option \<Rightarrow> string option \<Rightarrow> int list option \<Rightarrow> int
     \<Rightarrow> int option \<Rightarrow> int option \<Rightarrow> int option \<Rightarrow> py_error + ModelInfo" where
  "ModelInfo_init env flappie_model_name taiyaki_model_fn devs num_proc
       csize coverlap mconcur =
     (case flappie_model_name of
        Some nm \<Rightarrow> init_flappie env nm num_proc
      | None \<Rightarrow>
         (case taiyaki_model_fn of
            Some f \<Rightarrow> init_taiyaki env f devs num_proc csize coverlap mconcur
          | None \<Rightarrow> Inl (MegaError ''Invalid model specification.'')))"

subsection \<open>prep\_model\_worker and run\_model\<close>

text \<open>\<open>prep_model_worker\<close>, line 145. \<open>torch.device(d)\<close> of an integer is the CUDA
  device \<open>d\<close>.\<close>

definition prep_model_worker :: "ModelInfo \<Rightarrow> int option \<Rightarrow> py_error + ModelInfo" where
  "prep_model_worker self dev =
     and_then (getattr (model_type self)) (\<lambda>mt.
       if mt = TAI_NAME
       then and_then (getattr (taiyaki self)) (\<lambda>tai.
            and_then (getattr (fn self)) (\<lambda>f.
            and_then (load_model tai f) (\<lambda>m.
              let self = self\<lparr> model := Some m \<rparr>
              in (case dev of
                    Some d \<Rightarrow>
                      (case cuda_bind tai d of
                         Some e \<Rightarrow> Inl e
                       | None \<Rightarrow> Inr (self\<lparr> device := Some (Cuda d) \<rparr>))
                  | None \<Rightarrow> Inr (self\<lparr> device := Some Cpu \<rparr>)))))
       else Inr self)"

text \<open>Lines 166 to 168: the call of the chunked inference, with the attribute reads
  that build its arguments.\<close>

definition call_tai_run_model :: "ModelInfo \<Rightarrow> npfloat list \<Rightarrow> py_error + matrix" where
  "call_tai_run_model self raw_sig =
     and_then (getattr (taiyaki self)) (\<lambda>tai.
     and_then (getattr (model self)) (\<lambda>m.
     and_then (getattr (chunk_size self)) (\<lambda>cs.
     and_then (getattr (chunk_overlap self)) (\<lambda>co.
     and_then (getattr (max_concur_chunks self)) (\<lambda>mc.
       basecall_run_model tai raw_sig m cs co mc)))))"

text \<open>Lines 176 to 178: the two column ranges of every row.\<close>

definition split_columns :: "matrix \<Rightarrow> int \<Rightarrow> trans_weights" where
  "split_columns tw n =
     Divided (map (\<lambda>row. slice_to row n) tw) (map (\<lambda>row. slice_from row n) tw)"

text \<open>
  \<open>run_model\<close>, line 159. Emptying the CUDA cache changes no value; what is kept of
  line 173 is the read of the attribute \<open>device\<close>, outside the \<open>try\<close>.
\<close>

definition run_model :: "ModelInfo \<Rightarrow> npfloat list \<Rightarrow> int option \<Rightarrow> py_error + trans_weights" where
  "run_model self raw_sig n_can_state =
     and_then (getattr (model_type self)) (\<lambda>mt.
       if mt = FLP_NAME
       then and_then (getattr (flappy self)) (\<lambda>fl.
            and_then (getattr (name self)) (\<lambda>nm. run_network fl raw_sig nm))
       else if mt = TAI_NAME
       then (case call_tai_run_model self raw_sig of
               Inl e \<Rightarrow>
                 if isinstance_AttributeError e
                 then Inl (MegaError ''Out of date or incompatible model'')
                 else if isinstance_RuntimeError e
                 then Inl (MegaError ''Likely out of memory error.'')
                 else Inl e
             | Inr tw \<Rightarrow>
                 and_then (getattr (device self)) (\<lambda>dev.
                   case n_can_state of
                     None \<Rightarrow> Inr (Undivided tw)
                   | Some n \<Rightarrow> Inr (split_columns tw n)))
       else Inl (MegaError ''Invalid model type.''))"


section \<open>Example runtimes and containers\<close>

text \<open>Concrete collaborators, on which the properties below are instantiated.\<close>

text \<open>A compiled runtime that declares the modification counts \<open>[1,0,2,0]\<close> over
  \<open>ACGT\<close>, with an output alphabet of 7 symbols in which every canonical base is
  followed by its modifications.\<close>

definition example_flappy :: flappy_module where
  "example_flappy =
     \<lparr> get_cat_mods = ([1, 0, 2, 0], ''AZCGYXT''),
       run_network = (\<lambda>raw_sig nm. Inr (Undivided [])) \<rparr>"

text \<open>A trained runtime whose model ends in a plain layer of \<open>n\<close> states and whose
  chunked inference has the given outcome.\<close>

definition example_taiyaki :: "nat \<Rightarrow> py_error + matrix \<Rightarrow> taiyaki_module" where
  "example_taiyaki n outcome =
     \<lparr> load_model = (\<lambda>f. Inr \<lparr> sublayers = [\<lparr> layer_size = n, cat_mod = None \<rparr>] \<rparr>),
       has_GlobalNormFlipFlopCatMod = True,
       basecall_run_model = (\<lambda>raw_sig m cs co mc. outcome),
       cuda_bind = (\<lambda>d. None) \<rparr>"

definition example_env :: "nat \<Rightarrow> py_error + matrix \<Rightarrow> py_env" where
  "example_env n outcome =
     \<lparr> import_flappy = Some example_flappy,
       import_taiyaki = Some (example_taiyaki n outcome) \<rparr>"

text \<open>The object that the constructor builds on the trained path for one process
  on device 0 and a plain model of 40 states, and the same object after
  \<open>prep_model_worker(None)\<close>.\<close>

definition example_constructed :: "py_error + matrix \<Rightarrow> ModelInfo" where
  "example_constructed outcome =
     new_object\<lparr> model_type := Some TAI_NAME, fn := Some ''model.checkpoint'',
                 chunk_size := Some 1000, chunk_overlap := Some 100,
                 max_concur_chunks := Some 200, devices := Some (Some [0]),
                 process_devices := Some [Some 0],
                 taiyaki := Some (example_taiyaki 40 outcome),
                 is_cat_mod := Some False, output_size := Some 40,
                 output_alphabet := Some ''ACGT'', can_alphabet := Some ''ACGT'',
                 mod_long_names := Some [], str_to_int_mod_labels := Some [],
                 n_mods := Some 0 \<rparr>"

definition example_worker :: "py_error + matrix \<Rightarrow> ModelInfo" where
  "example_worker outcome =
     (example_constructed outcome)
       \<lparr> model := Some \<lparr> sublayers = [\<lparr> layer_size = 40, cat_mod = None \<rparr>] \<rparr>,
         device := Some Cpu \<rparr>"

text \<open>A container with one read, and a file system that holds it under every name.\<close>

definition example_fast5 :: "npfloat list \<Rightarrow> bool \<Rightarrow> py_value option \<Rightarrow> fast5" where
  "example_fast5 sig acc rid =
     \<lparr> Raw_Reads = Some [\<lparr> Signal = Some sig, attrs_accessible = acc, read_id_attr = rid \<rparr>] \<rparr>"

definition example_h5 :: "npfloat list \<Rightarrow> bool \<Rightarrow> py_value option \<Rightarrow> string \<Rightarrow> fast5 option" where
  "example_h5 sig acc rid = (\<lambda>fast5_fn. Some (example_fast5 sig acc rid))"

text \<open>A codec that agrees with UTF-8 on the byte strings used below: pure ASCII
  decodes to itself, and a byte string holding the byte 255 does not decode.\<close>

definition example_codec :: "nat list \<Rightarrow> string option" where
  "example_codec bs = (if list_all (\<lambda>b. b < 128) bs then Some (map char_of bs) else None)"

section \<open>Properties of megalodon\_helper.py\<close>

subsection \<open>nstate\_to\_nbase\<close>


text \<open>On a state count the truncation of \<open>int\<close> is the floor of the spec's formula.\<close>

lemma nstate_to_nbase_floor:
  "nstate_to_nbase n = \<lfloor>sqrt (0.25 + real n / 2) - 0.5\<rfloor>"
proof -
  have "0.5 \<le> sqrt (0.25 + 0.5 * real n)"
    by (rule real_le_rsqrt) (simp add: power2_eq_square)
  then show ?thesis by (simp add: nstate_to_nbase_def py_int_def)
qed

text \<open>The base count of \<open>n\<close> states is the \<open>b\<close> whose flip-flop state count
  \<open>2 b (b + 1)\<close> is the largest not above \<open>n\<close>.\<close>

lemma nstate_to_nbase_iff:
  "nstate_to_nbase n = int b \<longleftrightarrow> 2 * b * (b + 1) \<le> n \<and> n < 2 * (b + 1) * (b + 2)"
proof -
  let ?s = "sqrt (0.25 + real n / 2)"
  have nonneg: "0 \<le> 0.25 + real n / 2" "0 \<le> real b + 0.5" "0 \<le> real b + 1.5"
    by simp_all
  have "nstate_to_nbase n = int b \<longleftrightarrow> real b \<le> ?s - 0.5 \<and> ?s - 0.5 < real b + 1"
    unfolding nstate_to_nbase_floor by (simp add: floor_eq_iff)
  also have "\<dots> \<longleftrightarrow> real b + 0.5 \<le> ?s \<and> ?s < real b + 1.5"
    by auto
  also have "\<dots> \<longleftrightarrow>
      (real b + 0.5)\<^sup>2 \<le> 0.25 + real n / 2 \<and> 0.25 + real n / 2 < (real b + 1.5)\<^sup>2"
  proof -
    have lower: "real b + 0.5 \<le> ?s \<longleftrightarrow> (real b + 0.5)\<^sup>2 \<le> 0.25 + real n / 2"
      using nonneg by (metis abs_of_nonneg real_sqrt_abs real_sqrt_le_iff)
    have upper: "?s < real b + 1.5 \<longleftrightarrow> 0.25 + real n / 2 < (real b + 1.5)\<^sup>2"
      using nonneg by (metis abs_of_nonneg real_sqrt_abs real_sqrt_less_iff)
    show ?thesis using lower upper by simp
  qed
  also have "\<dots> \<longleftrightarrow>
      real (2 * b * (b + 1)) \<le> real n \<and> real n < real (2 * (b + 1) * (b + 2))"
  proof -
    have "(real b + 0.5)\<^sup>2 = real b * real b + real b + 0.25"
      "(real b + 1.5)\<^sup>2 = real b * real b + 3 * real b + 2.25"
      by (simp_all add: power2_eq_square algebra_simps)
    then show ?thesis by (auto simp: algebra_simps)
  qed
  also have "\<dots> \<longleftrightarrow> 2 * b * (b + 1) \<le> n \<and> n < 2 * (b + 1) * (b + 2)"
    unfolding of_nat_le_iff of_nat_less_iff ..
  finally show ?thesis .
qed



subsection \<open>The median of a constant array\<close>








subsection \<open>The median of finite data\<close>

text \<open>On finite samples \<open>np.median\<close> is the median of the spec, and \<open>med_mad\<close>
  returns it with 1.4826 times the median absolute deviation.\<close>

lemma np_insort_Fin: "np_insort (Fin x) (map Fin ys) = map Fin (insort x ys)"
  by (induction ys) auto

lemma np_sort_Fin: "np_sort (map Fin xs) = map Fin (sort xs)"
  by (induction xs) (simp_all add: np_insort_Fin)

lemma slice_one:
  assumes "i < length s"
  shows "slice s (int i) (int i + 1) = [s ! i]"
proof -
  have "nat (int i + 1) = Suc i" by simp
  then have "slice s (int i) (int i + 1) = drop i (take (Suc i) s)"
    using assms by (simp add: slice_def slice_bound_def min_def)
  also have "\<dots> = [s ! i]"
    using assms by (simp add: take_Suc_conv_app_nth)
  finally show ?thesis .
qed

lemma slice_two:
  assumes "1 \<le> i" "i < length s"
  shows "slice s (int i - 1) (int i + 1) = [s ! (i - 1), s ! i]"
proof -
  from assms obtain j where j: "i = Suc j" by (cases i) auto
  have bounds: "slice_bound (length s) (int i + 1) = Suc (Suc j)"
    "slice_bound (length s) (int i - 1) = j"
    using assms j by (auto simp: slice_bound_def)
  have "take (Suc (Suc j)) s = take j s @ [s ! j, s ! Suc j]"
    using assms j by (simp add: take_Suc_conv_app_nth)
  then have "drop j (take (Suc (Suc j)) s) = [s ! j, s ! Suc j]"
    using assms j by simp
  then show ?thesis
    unfolding slice_def bounds by (simp add: j)
qed

lemma np_median_finite:
  assumes "xs \<noteq> []"
  shows "np_median (map Fin xs) = Fin (spec_median xs)"
proof -
  let ?s = "map Fin (sort xs)"
  let ?i = "length xs div 2"
  have len: "?i < length ?s" using assms by simp
  have nan: "NaN \<notin> set (map Fin xs)" by auto
  show ?thesis
  proof (cases "length xs mod 2 = 1")
    case True
    then show ?thesis
      using nan len slice_one [OF len]
      by (simp add: np_median_def Let_def np_sort_Fin np_mean_def spec_median_def
          del: set_map)
  next
    case False
    moreover have "length xs \<noteq> 0" using assms by simp
    ultimately have "1 \<le> ?i" by presburger
    from slice_two [OF this len] False show ?thesis
      using nan len
      by (simp add: np_median_def Let_def np_sort_Fin np_mean_def spec_median_def
          del: set_map)
  qed
qed

lemma med_mad_finite:
  assumes "xs \<noteq> []"
  shows "med_mad (map Fin xs) None = (Fin (spec_median xs), Fin (1.4826 * spec_mad xs))"
proof -
  have dev: "map (\<lambda>x. fabs (fsub x (Fin (spec_median xs)))) (map Fin xs)
               = map Fin (map (\<lambda>x. \<bar>x - spec_median xs\<bar>) xs)"
    by (simp add: fsub_def)
  show ?thesis
    using assms
    by (simp add: med_mad_def Let_def np_median_finite dev spec_mad_def del: map_map)
qed

text \<open>Ordering commutes with an increasing affine map, and so does the median.\<close>

lemma insort_affine:
  fixes ys :: "real list"
  assumes "0 < s"
  shows "insort ((x - m) / s) (map (\<lambda>x. (x - m) / s) ys) = map (\<lambda>x. (x - m) / s) (insort x ys)"
  using assms by (induction ys) (auto simp: divide_le_cancel)

lemma sort_map_affine:
  fixes xs :: "real list"
  assumes "0 < s"
  shows "sort (map (\<lambda>x. (x - m) / s) xs) = map (\<lambda>x. (x - m) / s) (sort xs)"
  using assms by (induction xs) (simp_all add: insort_affine)

lemma spec_median_affine:
  assumes "0 < s" "xs \<noteq> []"
  shows "spec_median (map (\<lambda>x. (x - m) / s) xs) = (spec_median xs - m) / s"
proof -
  let ?i = "length xs div 2"
  have a: "?i < length xs"
    using assms(2) by simp
  then have b: "?i - 1 < length xs"
    by arith
  have nth: "sort (map (\<lambda>x. (x - m) / s) xs) ! i = (sort xs ! i - m) / s"
    if "i < length xs" for i
    using that by (simp add: sort_map_affine [OF assms(1)])
  show ?thesis
  proof (cases "length xs mod 2 = 1")
    case True
    then show ?thesis by (simp add: spec_median_def nth [OF a])
  next
    case False
    define p where "p = sort xs ! (?i - 1)"
    define q where "q = sort xs ! ?i"
    have lhs: "spec_median (map (\<lambda>x. (x - m) / s) xs) = ((p - m) / s + (q - m) / s) / 2"
      using False nth [OF a] nth [OF b] by (simp add: spec_median_def p_def q_def)
    have rhs: "spec_median xs = (p + q) / 2"
      using False by (simp add: spec_median_def p_def q_def)
    show ?thesis
      unfolding lhs rhs using assms(1) by (simp add: field_simps)
  qed
qed

text \<open>
  The spec's property of the normalized signal, in exact arithmetic: for finite samples
  with a positive MAD, \<open>(S - m) / s\<close> has median 0 and scaled MAD 1.
\<close>

lemma normalized_median_and_mad:
  assumes "xs \<noteq> []" "0 < spec_mad xs"
    and "ys = map (\<lambda>x. (x - spec_median xs) / (1.4826 * spec_mad xs)) xs"
  shows "map (\<lambda>x. fdiv (fsub x (fst (med_mad (map Fin xs) None)))
                      (snd (med_mad (map Fin xs) None))) (map Fin xs) = map Fin ys"
    and "spec_median ys = 0" and "1.4826 * spec_mad ys = 1"
proof -
  define m where "m = spec_median xs"
  define s where "s = 1.4826 * spec_mad xs"
  have s: "0 < s" using assms(2) by (simp add: s_def)
  have ys: "ys = map (\<lambda>x. (x - m) / s) xs"
    by (simp add: assms(3) m_def s_def)
  have mm: "med_mad (map Fin xs) None = (Fin m, Fin s)"
    using med_mad_finite [OF assms(1)] by (simp add: m_def s_def)
  show "map (\<lambda>x. fdiv (fsub x (fst (med_mad (map Fin xs) None)))
                      (snd (med_mad (map Fin xs) None))) (map Fin xs) = map Fin ys"
    using s by (simp add: mm ys fsub_def)
  show med0: "spec_median ys = 0"
    unfolding ys using spec_median_affine [OF s assms(1), of m] by (simp add: m_def)
  have "\<bar>(x - m) / s\<bar> = (\<bar>x - m\<bar> - 0) / s" for x
    using s by (simp add: abs_divide)
  then have "map (\<lambda>y. \<bar>y - 0\<bar>) ys = map (\<lambda>d. (d - 0) / s) (map (\<lambda>x. \<bar>x - m\<bar>) xs)"
    by (simp add: ys)
  then have "spec_mad ys = spec_median (map (\<lambda>d. (d - 0) / s) (map (\<lambda>x. \<bar>x - m\<bar>) xs))"
    by (simp add: spec_mad_def med0 del: map_map)
  also have "\<dots> = (spec_median (map (\<lambda>x. \<bar>x - m\<bar>) xs) - 0) / s"
    using assms(1) by (intro spec_median_affine [OF s]) simp
  also have "\<dots> = spec_mad xs / s"
    by (simp add: spec_mad_def m_def)
  finally show "1.4826 * spec_mad ys = 1"
    using assms(2) by (simp add: s_def)
qed

subsection \<open>extract\_read\_data\<close>

text \<open>A container whose first read has a signal dataset is read without an error,
  whatever its read-id attribute.\<close>

lemma extract_read_data_success:
  assumes "files f = Some fd" "Raw_Reads fd = Some (rs # rest)" "Signal rs = Some S"
  shows "extract_read_data files codec f scale =
     Inr (if scale
          then map (\<lambda>x. fdiv (fsub x (fst (med_mad S None))) (snd (med_mad S None))) S
          else S,
          extract_read_id codec rs)"
  using assms by (simp add: extract_read_data_def Let_def split_beta)





text \<open>
  Claim C6 as stated fails: when the read-id attribute is present and its decoding
  raises, the identifier returned is not \<open>None\<close>. The byte string \<open>b'\xff'\<close> is not
  UTF-8 and comes back as it is; a \<open>str\<close> attribute has no \<open>decode\<close> and comes back as
  it is.
\<close>

theorem read_id_decode_failure_counterexample:
  "decode example_codec (PyBytes [255]) = Inl (OtherError ''UnicodeDecodeError'')
   \<and> extract_read_data (example_h5 [Fin 1] True (Some (PyBytes [255])))
        example_codec ''read.fast5'' False = Inr ([Fin 1], PyBytes [255])
   \<and> PyBytes [255] \<noteq> PyNone
   \<and> decode example_codec (PyStr ''read-1'') = Inl AttributeError
   \<and> extract_read_data (example_h5 [Fin 1] True (Some (PyStr ''read-1'')))
        example_codec ''read.fast5'' False = Inr ([Fin 1], PyStr ''read-1'')
   \<and> PyStr ''read-1'' \<noteq> PyNone"
  by (simp add: extract_read_data_def example_h5_def example_fast5_def extract_read_id_def
      example_codec_def)

text \<open>
  Claim C6, amended. For every read container whose signal is successfully read,
  \<open>extract_read_data\<close> succeeds whatever happens to the read identifier. The identifier
  is \<open>None\<close> when the attribute cannot be fetched or is missing, the decoded string when
  decoding succeeds, and the attribute's raw, undecoded value when the attribute is
  present and its decode step raises.
\<close>

theorem read_id_failure_is_not_fatal:
  assumes "files f = Some fd" "Raw_Reads fd = Some (rs # rest)" "Signal rs = Some S"
  shows "\<exists>sig rid. extract_read_data files codec f scale = Inr (sig, rid)
     \<and> (if \<not> attrs_accessible rs then rid = PyNone
        else case read_id_attr rs of
               None \<Rightarrow> rid = PyNone
             | Some v \<Rightarrow> (case decode codec v of Inr s \<Rightarrow> rid = s | Inl e \<Rightarrow> rid = v))"
  using assms
  by (simp add: extract_read_data_success extract_read_id_def split: option.splits sum.splits)

theorem read_id_failure_is_not_fatal_witness:
  "(\<exists>sig. extract_read_data (example_h5 [Fin 1] True None) example_codec ''read.fast5'' True
            = Inr (sig, PyNone))
   \<and> (\<exists>sig. extract_read_data (example_h5 [Fin 1] False (Some (PyBytes [114, 49])))
              example_codec ''read.fast5'' True = Inr (sig, PyNone))
   \<and> (\<exists>sig. extract_read_data (example_h5 [Fin 1] True (Some (PyBytes [114, 49])))
              example_codec ''read.fast5'' True = Inr (sig, PyStr ''r1''))
   \<and> (\<exists>sig. extract_read_data (example_h5 [Fin 1] True (Some (PyBytes [255])))
              example_codec ''read.fast5'' True = Inr (sig, PyBytes [255]))"
proof -
  have inst: "\<exists>sig rid. extract_read_data (example_h5 [Fin 1] acc attr) example_codec
                   ''read.fast5'' True = Inr (sig, rid)
     \<and> (if \<not> acc then rid = PyNone
        else case attr of
               None \<Rightarrow> rid = PyNone
             | Some v \<Rightarrow> (case decode example_codec v of Inr s \<Rightarrow> rid = s
                          | Inl e \<Rightarrow> rid = v))" for acc attr
  proof -
    let ?rs = "\<lparr> Signal = Some [Fin 1], attrs_accessible = acc, read_id_attr = attr \<rparr>"
    have "example_h5 [Fin 1] acc attr ''read.fast5'' = Some (example_fast5 [Fin 1] acc attr)"
      "Raw_Reads (example_fast5 [Fin 1] acc attr) = Some (?rs # [])"
      "Signal ?rs = Some [Fin 1]"
      by (simp_all add: example_h5_def example_fast5_def)
    from read_id_failure_is_not_fatal [where files = "example_h5 [Fin 1] acc attr"
        and f = "''read.fast5''" and fd = "example_fast5 [Fin 1] acc attr"
        and rs = ?rs and rest = "[]" and S = "[Fin 1]" and codec = example_codec
        and scale = True, OF this]
    show ?thesis by (cases acc) simp_all
  qed
  have r1: "[char_of (114::nat), char_of (49::nat)] = ''r1''"
    by code_simp
  show ?thesis
    using inst [of True None] inst [of False "Some (PyBytes [114, 49])"]
      inst [of True "Some (PyBytes [114, 49])"] inst [of True "Some (PyBytes [255])"]
    by (simp add: example_codec_def r1)
qed

section \<open>Properties of backends.py\<close>

subsection \<open>Shared facts\<close>

lemma and_then_Inr_iff: "and_then m g = Inr y \<longleftrightarrow> (\<exists>x. m = Inr x \<and> g x = Inr y)"
  by (cases m) auto

lemma and_then_InrE:
  assumes "and_then m g = Inr y"
  obtains x where "m = Inr x" "g x = Inr y"
  using assms by (cases m) auto

lemma nstate_40: "nstate_to_nbase 40 = 4"
  using nstate_to_nbase_iff [of 40 4] by simp

lemma nstate_60: "nstate_to_nbase 60 = 5"
  using nstate_to_nbase_iff [of 60 5] by simp

lemma assign_one: "assign_process_devices (Some [0]) 1 = Inr [0]"
  by (simp add: assign_process_devices_def procs_per_device_def base_proc_per_device_def
      np_repeat_def)

text \<open>The example objects are what the constructor and \<open>prep_model_worker\<close> build.\<close>

lemma example_constructed_reached:
  "ModelInfo_init (example_env 40 outcome) None (Some ''model.checkpoint'') (Some [0]) 1
       (Some 1000) (Some 100) (Some 200) = Inr (example_constructed outcome)"
  by (simp add: nstate_40 assign_one ModelInfo_init_def init_taiyaki_def
      init_taiyaki_alphabet_def example_env_def
      example_taiyaki_def last_sublayer_def init_taiyaki_plain_def Let_def
      example_constructed_def new_object_def ALPHABET_def)

lemma example_worker_reached:
  "prep_model_worker (example_constructed outcome) None = Inr (example_worker outcome)"
  by (simp add: prep_model_worker_def example_constructed_def example_worker_def
      example_taiyaki_def new_object_def)

subsection \<open>The compiled modification-aware model\<close>

text \<open>
  Line 56 reads \<open>can_base_mods\<close>, which the compiled branch never assigns (the loop
  fills \<open>can_base_mod\<close>): whatever the runtime declares, constructing a
  \<open>ModelInfo\<close> for \<open>r941_cat_mod\<close> raises.
\<close>

lemma flappie_cat_mod_attrs_can_base_mods:
  "flappie_cat_mod_attrs self fl = Inr obj \<Longrightarrow> can_base_mods obj = can_base_mods self"
  by (auto simp: flappie_cat_mod_attrs_def Let_def split_beta and_then_Inr_iff)

lemma flappie_cat_mod_never_constructs:
  "ModelInfo_init env (Some ''r941_cat_mod'') tfn devs num_proc cs co mc \<noteq> Inr obj"
  by (auto simp: ModelInfo_init_def init_flappie_def init_flappie_cat_mod_def Let_def
      and_then_Inr_iff new_object_def
      dest!: flappie_cat_mod_attrs_can_base_mods split: option.splits)

text \<open>
  Claim C1 as stated fails. With the counts \<open>[1,0,2,0]\<close> over \<open>ACGT\<close> and the
  7-symbol alphabet \<open>AZCGYXT\<close>, construction does not succeed: it raises
  \<open>AttributeError\<close>. And the dictionary that the loop of lines 51 to 55 assembles
  has no entry for C: the two modifications counted third belong to G.
\<close>

theorem compiled_cat_mod_counterexample:
  "ModelInfo_init (example_env 40 (Inr [])) (Some ''r941_cat_mod'') None None 1 None None None
     = Inl AttributeError
   \<and> get_cat_mods example_flappy = ([1, 0, 2, 0], ''AZCGYXT'')
   \<and> flp_base_loop ''ACGT'' ''AZCGYXT'' None []
        = Inr [(CHR ''A'', ''Z''), (CHR ''G'', ''YX'')]
   \<and> dict_get [(CHR ''A'', ''Z''), (CHR ''G'', ''YX'')] CHR ''C'' = None"
  by (simp add: ModelInfo_init_def init_flappie_def example_env_def example_flappy_def
      init_flappie_cat_mod_def flappie_cat_mod_attrs_def compute_can_indices_def
      np_cumsum_def slice_to_def
      slice_bound_def index_def new_object_def Let_def)

text \<open>
  Claim C1, amended. For the compiled backend with model name \<open>r941_cat_mod\<close>, when
  the runtime declares the per-canonical modification counts \<open>[1,0,2,0]\<close> over
  \<open>ACGT\<close> with an output alphabet \<open>A x C G y z T\<close> (\<open>x\<close>, \<open>y\<close>, \<open>z\<close> not
  canonical), lines 35 to 55 of the constructor assign an output alphabet of length 7,
  the canonical alphabet \<open>ACGT\<close>, a per-base modification dictionary with exactly 1
  symbol for A and exactly 2 symbols for G (none for C and T), \<open>n_mods = 3\<close> and
  \<open>output_size = 41 + 3 = 44\<close>.
\<close>

theorem compiled_cat_mod_alphabet:
  assumes "get_cat_mods fl = ([1, 0, 2, 0], [CHR ''A'', x, CHR ''C'', CHR ''G'', y, z, CHR ''T''])"
    and "x \<notin> set ''ACGT''" "y \<notin> set ''ACGT''" "z \<notin> set ''ACGT''"
  shows "\<exists>obj. flappie_cat_mod_attrs self fl = Inr obj
     \<and> output_alphabet obj = Some [CHR ''A'', x, CHR ''C'', CHR ''G'', y, z, CHR ''T'']
     \<and> length [CHR ''A'', x, CHR ''C'', CHR ''G'', y, z, CHR ''T''] = 7
     \<and> can_alphabet obj = Some ''ACGT''
     \<and> can_base_mod obj = Some [(CHR ''A'', [x]), (CHR ''G'', [y, z])]
     \<and> n_mods obj = Some 3
     \<and> output_size obj = Some 44"
  using assms
  by (simp add: flappie_cat_mod_attrs_def compute_can_indices_def
      np_cumsum_def slice_to_def slice_bound_def index_def Let_def)

theorem compiled_cat_mod_alphabet_witness:
  "\<exists>obj. flappie_cat_mod_attrs new_object example_flappy = Inr obj
     \<and> output_alphabet obj = Some ''AZCGYXT''
     \<and> can_alphabet obj = Some ''ACGT''
     \<and> can_base_mod obj = Some [(CHR ''A'', ''Z''), (CHR ''G'', ''YX'')]
     \<and> n_mods obj = Some 3
     \<and> output_size obj = Some 44"
proof -
  have "get_cat_mods example_flappy
      = ([1, 0, 2, 0], [CHR ''A'', CHR ''Z'', CHR ''C'', CHR ''G'', CHR ''Y'', CHR ''X'', CHR ''T''])"
    "CHR ''Z'' \<notin> set ''ACGT''" "CHR ''Y'' \<notin> set ''ACGT''" "CHR ''X'' \<notin> set ''ACGT''"
    by (simp_all add: example_flappy_def)
  from compiled_cat_mod_alphabet [OF this, of new_object] show ?thesis by simp
qed

subsection \<open>Attributes after construction\<close>





lemma prep_model_worker_attributes:
  assumes "prep_model_worker self dev = Inr obj" "model_type self = Some TAI_NAME"
  shows "model obj \<noteq> None"
    and "device obj = Some (case dev of None \<Rightarrow> Cpu | Some d \<Rightarrow> Cuda d)"
    and "model_type obj = Some TAI_NAME" and "taiyaki obj = taiyaki self"
    and "chunk_size obj = chunk_size self" and "chunk_overlap obj = chunk_overlap self"
    and "max_concur_chunks obj = max_concur_chunks self"
  using assms
  by (auto simp: prep_model_worker_def Let_def elim!: and_then_InrE
      split: option.splits if_splits)

text \<open>The compiled path is CPU only: every process has the device \<open>None\<close>.\<close>

lemma init_compiled_process_devices:
  assumes "ModelInfo_init env (Some nm) tfn devs num_proc csize coverlap mconcur = Inr obj"
  shows "process_devices obj = Some (replicate (nat num_proc) None)"
  using assms
  by (auto simp: ModelInfo_init_def init_flappie_def Let_def
      elim!: and_then_InrE split: if_splits option.splits)

subsection \<open>The device of every process\<close>













subsection \<open>Construction on the trained path\<close>

text \<open>
  With the three chunking parameters given, the device list is the next thing the
  constructor consults.
\<close>

lemma devices_consulted:
  "ModelInfo_init env None (Some f) None num_proc (Some cs) (Some co) (Some mc) = Inl TypeError"
  "ModelInfo_init env None (Some f) (Some []) num_proc (Some cs) (Some co) (Some mc)
     = Inl ZeroDivisionError"
  by (simp_all add: ModelInfo_init_def init_taiyaki_def assign_process_devices_def)

text \<open>
  Claim C8. On the trained-model path, when any of \<open>chunk_size\<close>,
  \<open>chunk_overlap\<close>, \<open>max_concur_chunks\<close> is absent, construction fails with the
  same error whatever the device list, the process count and the runtimes are: the
  device list is not consulted (a missing or empty one would raise otherwise) and no
  object, hence no process-device assignment, is produced. With neither a compiled
  model name nor a trained model file, construction raises
  \<open>MegaError('Invalid model specification.')\<close>.
\<close>

theorem init_fails_before_device_allocation:
  assumes "csize = None \<or> coverlap = None \<or> mconcur = None"
  shows "ModelInfo_init env None (Some f) devs num_proc csize coverlap mconcur
           = Inl (NotImplementedError
               ''Must provide chunk_size, chunk_overlap, max_concur_chunks in order to run the taiyaki base calling backend.'')
       \<and> ModelInfo_init env None None devs' num_proc' csize' coverlap' mconcur'
           = Inl (MegaError ''Invalid model specification.'')"
  using assms by (auto simp: ModelInfo_init_def init_taiyaki_def)

theorem init_fails_before_device_allocation_witness:
  "ModelInfo_init (example_env 40 (Inr [])) None (Some ''model.checkpoint'') None 4
       None (Some 100) (Some 200)
     = Inl (NotImplementedError
         ''Must provide chunk_size, chunk_overlap, max_concur_chunks in order to run the taiyaki base calling backend.'')
   \<and> ModelInfo_init (example_env 40 (Inr [])) None None (Some [0]) 4
       (Some 1000) (Some 100) (Some 200)
     = Inl (MegaError ''Invalid model specification.'')"
proof -
  have "(None :: int option) = None \<or> Some (100::int) = None \<or> Some (200::int) = None"
    by simp
  from init_fails_before_device_allocation [OF this] show ?thesis by simp
qed

text \<open>
  Claim C5 as stated fails: a trained plain model of 60 states (5 bases) is rejected,
  but the exception is a \<open>NotImplementedError\<close>, which is not a \<open>MegaError\<close>.
\<close>

theorem plain_model_rejection_counterexample:
  "ModelInfo_init (example_env 60 (Inr [])) None (Some ''model.checkpoint'') (Some [0]) 1
       (Some 1000) (Some 100) (Some 200)
     = Inl (NotImplementedError ''Naive modified base flip-flop models are not supported.'')
   \<and> \<not> isinstance_MegaError
         (NotImplementedError ''Naive modified base flip-flop models are not supported.'')
   \<and> nstate_to_nbase 60 = 5"
proof -
  have n: "nstate_to_nbase 60 = 5"
    using nstate_to_nbase_iff [of 60 5] by simp
  have pd: "assign_process_devices (Some [0]) 1 = Inr [0]"
    by (simp add: assign_process_devices_def procs_per_device_def base_proc_per_device_def
        np_repeat_def)
  show ?thesis
    by (simp add: n pd ModelInfo_init_def init_taiyaki_def init_taiyaki_alphabet_def
        example_env_def example_taiyaki_def
        last_sublayer_def init_taiyaki_plain_def Let_def)
qed

text \<open>
  Claim C5, amended. For every trained plain model (its final layer is not a
  modification-aware layer) that construction reaches with chunking parameters, a
  device assignment and a loaded model: when the base count
  \<open>\<lfloor>\<surd>(0.25 + n/2) - 0.5\<rfloor>\<close> of its final-layer size \<open>n\<close> is not 4, construction
  raises \<open>NotImplementedError('Naive modified base flip-flop models are not
  supported.')\<close>; when it is exactly 4, construction succeeds with the alphabet
  \<open>ACGT\<close> and no modifications.
\<close>

theorem plain_model_base_count_check:
  assumes "csize \<noteq> None" "coverlap \<noteq> None" "mconcur \<noteq> None"
    and "assign_process_devices devs num_proc = Inr pd"
    and "import_taiyaki env = Some tai" "load_model tai f = Inr m"
    and "sublayers m \<noteq> []" "last (sublayers m) = ff"
    and "cat_mod ff = None \<or> \<not> has_GlobalNormFlipFlopCatMod tai"
  shows "(nstate_to_nbase (layer_size ff) \<noteq> 4 \<longrightarrow>
            ModelInfo_init env None (Some f) devs num_proc csize coverlap mconcur
              = Inl (NotImplementedError
                       ''Naive modified base flip-flop models are not supported.''))
       \<and> (nstate_to_nbase (layer_size ff) = 4 \<longrightarrow>
            (\<exists>self. ModelInfo_init env None (Some f) devs num_proc csize coverlap mconcur
                       = Inr self
                \<and> is_cat_mod self = Some False
                \<and> output_alphabet self = Some ''ACGT'' \<and> can_alphabet self = Some ''ACGT''
                \<and> n_mods self = Some 0 \<and> output_size self = Some (layer_size ff)))
       \<and> nstate_to_nbase (layer_size ff) = \<lfloor>sqrt (0.25 + real (layer_size ff) / 2) - 0.5\<rfloor>"
proof -
  have cat: "(if has_GlobalNormFlipFlopCatMod tai then cat_mod ff else None) = None"
    using assms(9) by auto
  show ?thesis
    using assms(1-8) nstate_to_nbase_floor [of "layer_size ff"]
    by (simp add: ModelInfo_init_def init_taiyaki_def init_taiyaki_alphabet_def
        last_sublayer_def init_taiyaki_plain_def Let_def cat ALPHABET_def)
qed

theorem plain_model_base_count_check_witness:
  "(\<exists>self. ModelInfo_init (example_env 40 (Inr [])) None (Some ''model.checkpoint'')
              (Some [0]) 1 (Some 1000) (Some 100) (Some 200) = Inr self
         \<and> output_alphabet self = Some ''ACGT'' \<and> n_mods self = Some 0)
   \<and> ModelInfo_init (example_env 60 (Inr [])) None (Some ''model.checkpoint'')
              (Some [0]) 1 (Some 1000) (Some 100) (Some 200)
       = Inl (NotImplementedError ''Naive modified base flip-flop models are not supported.'')"
proof -
  let ?m = "\<lambda>n. \<lparr> sublayers = [\<lparr> layer_size = n, cat_mod = None \<rparr>] \<rparr>"
  have pre: "Some (1000::int) \<noteq> None" "Some (100::int) \<noteq> None" "Some (200::int) \<noteq> None"
    "assign_process_devices (Some [0]) 1 = Inr [0]"
    "import_taiyaki (example_env n (Inr [])) = Some (example_taiyaki n (Inr []))"
    "load_model (example_taiyaki n (Inr [])) ''model.checkpoint'' = Inr (?m n)"
    "sublayers (?m n) \<noteq> []"
    "last (sublayers (?m n)) = \<lparr> layer_size = n, cat_mod = None \<rparr>"
    "cat_mod \<lparr> layer_size = n, cat_mod = None \<rparr> = None
       \<or> \<not> has_GlobalNormFlipFlopCatMod (example_taiyaki n (Inr []))" for n
    by (simp_all add: assign_one example_env_def example_taiyaki_def)
  show ?thesis
    using plain_model_base_count_check [OF pre, of 40] plain_model_base_count_check [OF pre, of 60]
    by (auto simp: nstate_40 nstate_60)
qed

subsection \<open>run\_model\<close>

text \<open>
  Claim C7. On a trained-backend object whose attributes for the call are set: when
  the chunked inference raises \<open>AttributeError\<close>, \<open>run_model\<close> raises
  \<open>MegaError('Out of date or incompatible model')\<close>; when it raises
  \<open>RuntimeError\<close>, \<open>run_model\<close> raises \<open>MegaError('Likely out of memory error.')\<close>;
  and on an object whose model type is neither the compiled nor the trained kind,
  \<open>run_model\<close> raises \<open>MegaError('Invalid model type.')\<close>.
\<close>

theorem run_model_error_classification:
  assumes "model_type self = Some TAI_NAME"
    and "taiyaki self = Some tai" "model self = Some m"
    and "chunk_size self = Some cs" "chunk_overlap self = Some co"
    and "max_concur_chunks self = Some mc"
    and "model_type other = Some mt" "mt \<noteq> FLP_NAME" "mt \<noteq> TAI_NAME"
  shows "(basecall_run_model tai raw_sig m cs co mc = Inl AttributeError
            \<longrightarrow> run_model self raw_sig n
                  = Inl (MegaError ''Out of date or incompatible model''))
       \<and> (basecall_run_model tai raw_sig m cs co mc = Inl RuntimeError
            \<longrightarrow> run_model self raw_sig n = Inl (MegaError ''Likely out of memory error.''))
       \<and> run_model other raw_sig' n' = Inl (MegaError ''Invalid model type.'')"
  using assms
  by (simp add: run_model_def call_tai_run_model_def TAI_NAME_def FLP_NAME_def)

theorem run_model_error_classification_witness:
  "run_model (example_worker (Inl AttributeError)) [Fin 1] None
     = Inl (MegaError ''Out of date or incompatible model'')
   \<and> run_model (example_worker (Inl RuntimeError)) [Fin 1] None
     = Inl (MegaError ''Likely out of memory error.'')
   \<and> run_model (new_object\<lparr> model_type := Some ''guppy'' \<rparr>) [Fin 1] None
     = Inl (MegaError ''Invalid model type.'')"
proof -
  let ?m = "\<lparr> sublayers = [\<lparr> layer_size = 40, cat_mod = None \<rparr>] \<rparr>"
  have attrs: "model_type (example_worker outcome) = Some TAI_NAME"
    "taiyaki (example_worker outcome) = Some (example_taiyaki 40 outcome)"
    "model (example_worker outcome) = Some ?m"
    "chunk_size (example_worker outcome) = Some 1000"
    "chunk_overlap (example_worker outcome) = Some 100"
    "max_concur_chunks (example_worker outcome) = Some 200" for outcome
    by (simp_all add: example_worker_def example_constructed_def new_object_def)
  have other: "model_type (new_object\<lparr> model_type := Some ''guppy'' \<rparr>) = Some ''guppy''"
    "''guppy'' \<noteq> FLP_NAME" "''guppy'' \<noteq> TAI_NAME"
    by (simp_all add: FLP_NAME_def TAI_NAME_def)
  have call: "basecall_run_model (example_taiyaki 40 outcome) [Fin 1] ?m 1000 100 200 = outcome"
    for outcome
    by (simp add: example_taiyaki_def)
  show ?thesis
    using run_model_error_classification [OF attrs other, of "Inl AttributeError" "[Fin 1]" None "[Fin 1]" None]
      run_model_error_classification [OF attrs other, of "Inl RuntimeError" "[Fin 1]" None "[Fin 1]" None]
    by (simp add: call)
qed






end
